theory Spec2Isabelle
  imports Main "HOL-Library.Sublist"
begin

section \<open>JavaScript values used by the URL configuration\<close>

text \<open>
  Both modules only read strings from their environment and build strings. A JavaScript
  string is modelled as \<^typ>\<open>string\<close>; a variable of \<open>process.env\<close> or of
  \<open>import.meta.env\<close> is either undefined (\<open>None\<close>) or a string (\<open>Some s\<close>).
  Such a value is falsy exactly when it is undefined or the empty string. The functions
  only compare, search and concatenate strings, so they do not depend on the alphabet;
  of JavaScript's line terminators, \<^typ>\<open>char\<close> has the line feed and the carriage return.
\<close>

type_synonym env = "string \<rightharpoonup> string"

text \<open>\<open>v || d\<close> for an optional string \<open>v\<close>: the default replaces a falsy value.\<close>

definition or_default :: "string option \<Rightarrow> string \<Rightarrow> string" where
  "or_default v d = (case v of None \<Rightarrow> d | Some s \<Rightarrow> if s = [] then d else s)"

text \<open>\<open>if (v)\<close> for an optional string \<open>v\<close>.\<close>

definition truthy :: "string option \<Rightarrow> bool" where
  "truthy v = (case v of None \<Rightarrow> False | Some s \<Rightarrow> s \<noteq> [])"

text \<open>\<open>String.prototype.includes\<close>, \<open>endsWith\<close> and \<open>startsWith\<close>.\<close>

definition str_includes :: "string \<Rightarrow> string \<Rightarrow> bool" where
  "str_includes s sub = sublist sub s"

definition ends_with :: "string \<Rightarrow> string \<Rightarrow> bool" where
  "ends_with s suf = suffix suf s"

definition starts_with :: "string \<Rightarrow> string \<Rightarrow> bool" where
  "starts_with s pre = prefix pre s"

section \<open>Backend: utils/urlConfig.js\<close>

text \<open>The local constant \<open>nodeEnv = process.env.NODE_ENV || 'development'\<close>.\<close>

definition nodeEnv :: "env \<Rightarrow> string" where
  "nodeEnv e = or_default (e ''NODE_ENV'') ''development''"

text \<open>
  \<open>if (v) return v\<close> is written \<open>if truthy v then or_default v []\<close>: for a truthy \<open>v\<close>
  that is the string it holds (lemma \<open>truthy_or_default\<close> below).
\<close>

definition getFrontendUrl :: "env \<Rightarrow> string" where
  "getFrontendUrl e =
     (if truthy (e ''FRONTEND_URL'') then or_default (e ''FRONTEND_URL'') []
      else if nodeEnv e = ''production'' then
        (if truthy (e ''RENDER'') then
           ''https://'' @ or_default (e ''RENDER_SERVICE_NAME'') ''whatsapp-feedback-fullstack''
             @ ''.onrender.com''
         else if truthy (e ''RENDER_EXTERNAL_URL'') then or_default (e ''RENDER_EXTERNAL_URL'') []
         else ''https://whatsapp-feedback-fullstack.onrender.com'')
      else ''http://localhost:5173'')"

text \<open>
  In \<open>getBackendUrl\<close> the default port is the number \<open>8080\<close>, which the template
  literal prints as \<open>8080\<close>.
\<close>

definition getBackendUrl :: "env \<Rightarrow> string" where
  "getBackendUrl e =
     (let port = or_default (e ''PORT'') ''8080'';
          host = or_default (e ''HOST'') ''localhost''
      in if nodeEnv e = ''production'' then
           (if truthy (e ''RENDER_EXTERNAL_URL'') then or_default (e ''RENDER_EXTERNAL_URL'') []
            else ''https://''
                   @ or_default (e ''RENDER_SERVICE_NAME'') ''whatsapp-feedback-fullstack''
                   @ ''.onrender.com'')
         else ''http://'' @ host @ '':'' @ port)"

text \<open>
  The entries of the CORS list are strings and regular expressions. The five regular
  expressions of the source have two shapes: \<open>/^http:\/\/localhost:\d+$/\<close>, and
  \<open>/^https:\/\/.*\.D$/\<close> for a literal platform domain \<open>D\<close>.
\<close>

datatype pattern = LocalhostAnyPort | HttpsAnySubdomain string

datatype origin = OriginString string | OriginPattern pattern

text \<open>
  \<open>RegExp.prototype.test\<close> for the two shapes. Without flags, \<open>$\<close> is the end of the
  input and \<open>.\<close> matches every character but a line terminator.
\<close>

definition is_digit :: "char \<Rightarrow> bool" where
  "is_digit c = (c \<in> set ''0123456789'')"

definition line_terminator :: "char \<Rightarrow> bool" where
  "line_terminator c = (c = CHR 0x0A \<or> c = CHR 0x0D)"

fun pattern_test :: "pattern \<Rightarrow> string \<Rightarrow> bool" where
  "pattern_test LocalhostAnyPort s =
     (starts_with s ''http://localhost:''
      \<and> drop 17 s \<noteq> [] \<and> list_all is_digit (drop 17 s))"
| "pattern_test (HttpsAnySubdomain d) s =
     (starts_with s ''https://''
      \<and> ends_with (drop 8 s) (CHR ''.'' # d)
      \<and> \<not> list_ex line_terminator (take (length s - 8 - Suc (length d)) (drop 8 s)))"

text \<open>\<open>Boolean(x)\<close> on an entry: a regular expression is an object, hence truthy.\<close>

fun origin_truthy :: "origin \<Rightarrow> bool" where
  "origin_truthy (OriginString s) = (s \<noteq> [])"
| "origin_truthy (OriginPattern p) = True"

definition getCorsOrigins :: "env \<Rightarrow> origin list" where
  "getCorsOrigins e =
     (let frontendUrl = getFrontendUrl e;
          origins =
            [OriginString frontendUrl,
             OriginString ''http://localhost:5173'',
             OriginString ''http://localhost:5174'',
             OriginString ''http://localhost:3000'',
             OriginString ''http://localhost:5175'',
             OriginPattern LocalhostAnyPort,
             OriginPattern (HttpsAnySubdomain ''onrender.com''),
             OriginPattern (HttpsAnySubdomain ''railway.app''),
             OriginPattern (HttpsAnySubdomain ''vercel.app''),
             OriginPattern (HttpsAnySubdomain ''netlify.app'')];
          origins' = (if nodeEnv e = ''development''
                      then origins @ [OriginString ''*''] else origins)
      in filter origin_truthy origins')"

section \<open>Frontend: src/config/urlConfig.ts\<close>

text \<open>
  The snapshot read by the client: the variables of \<open>import.meta.env\<close> that the module
  uses (the build flags \<open>PROD\<close> and \<open>DEV\<close> as \<open>env_PROD\<close> and \<open>env_DEV\<close>), and
  \<open>window.location.host\<close>.
\<close>

record client_env =
  VITE_API_BASE_URL :: "string option"
  env_PROD :: bool
  env_DEV :: bool
  VITE_BACKEND_PORT :: "string option"
  location_host :: string

definition getApiBaseUrl :: "client_env \<Rightarrow> string" where
  "getApiBaseUrl c =
     (if truthy (VITE_API_BASE_URL c) then or_default (VITE_API_BASE_URL c) []
      else if env_PROD c then
        (let currentHost = location_host c
         in if str_includes currentHost ''onrender.com'' then ''https://'' @ currentHost @ ''/api''
            else if str_includes currentHost ''railway.app'' then ''https://'' @ currentHost @ ''/api''
            else if str_includes currentHost ''vercel.app'' then ''https://'' @ currentHost @ ''/api''
            else ''/api'')
      else ''http://localhost:'' @ or_default (VITE_BACKEND_PORT c) ''8080'' @ ''/api'')"

text \<open>
  \<open>apiUrl.replace(/\/api$/, '')\<close>: the search tries every start position from the left;
  the expression matches at a position exactly when the rest of the string is \<open>/api\<close>,
  and the first match is replaced by the empty string.
\<close>

fun replace_api_end :: "string \<Rightarrow> string" where
  "replace_api_end [] = []"
| "replace_api_end (c # cs) = (if c # cs = ''/api'' then [] else c # replace_api_end cs)"

definition getBackendBaseUrl :: "client_env \<Rightarrow> string" where
  "getBackendBaseUrl c = replace_api_end (getApiBaseUrl c)"

definition getApiUrl :: "client_env \<Rightarrow> string \<Rightarrow> string" where
  "getApiUrl c endpoint =
     (let baseUrl = getApiBaseUrl c;
          cleanEndpoint = (if starts_with endpoint ''/'' then endpoint else ''/'' @ endpoint)
      in baseUrl @ cleanEndpoint)"

definition getSseUrl :: "client_env \<Rightarrow> string" where
  "getSseUrl c = getApiUrl c ''/events''"

definition isDevelopment :: "client_env \<Rightarrow> bool" where
  "isDevelopment c = env_DEV c"

definition isProduction :: "client_env \<Rightarrow> bool" where
  "isProduction c = env_PROD c"

section \<open>Vocabulary of the specification\<close>

text \<open>
  The specification speaks of the platform-suffix pattern matchers of the CORS list: the
  entries that are a regular expression of the shape \<open>/^https:\/\/.*\.D$/\<close>.
\<close>

fun platform_suffix_pattern :: "origin \<Rightarrow> bool" where
  "platform_suffix_pattern (OriginPattern (HttpsAnySubdomain d)) = True"
| "platform_suffix_pattern _ = False"

text \<open>A numeric port, in the specification's sense: a non-empty string of decimal digits.\<close>

definition numeric_string :: "string \<Rightarrow> bool" where
  "numeric_string s = (s \<noteq> [] \<and> list_all is_digit s)"

section \<open>Basic facts\<close>

lemma truthy_Some [simp]: "truthy (Some s) = (s \<noteq> [])"
  by (simp add: truthy_def)

lemma truthy_None [simp]: "truthy None = False"
  by (simp add: truthy_def)

lemma or_default_Some [simp]: "or_default (Some s) d = (if s = [] then d else s)"
  by (simp add: or_default_def)

lemma or_default_None [simp]: "or_default None d = d"
  by (simp add: or_default_def)

lemma truthy_or_default: "truthy v \<Longrightarrow> v = Some (or_default v d)"
  by (cases v) auto

lemma nodeEnv_development_iff:
  "nodeEnv e = ''development'' \<longleftrightarrow>
     e ''NODE_ENV'' = None \<or> e ''NODE_ENV'' = Some [] \<or> e ''NODE_ENV'' = Some ''development''"
  by (cases "e ''NODE_ENV''") (auto simp: nodeEnv_def)

lemma nodeEnv_production_iff:
  "nodeEnv e = ''production'' \<longleftrightarrow> e ''NODE_ENV'' = Some ''production''"
  by (cases "e ''NODE_ENV''") (auto simp: nodeEnv_def)

text \<open>The regular expressions accept what their comments in the source announce.\<close>

lemma pattern_test_examples:
  "pattern_test (HttpsAnySubdomain ''onrender.com'') ''https://x.onrender.com''"
  "\<not> pattern_test (HttpsAnySubdomain ''onrender.com'') ''https://onrender.com''"
  "\<not> pattern_test (HttpsAnySubdomain ''onrender.com'') ''https://x.onrender.com.evil.example''"
  "pattern_test LocalhostAnyPort ''http://localhost:4000''"
  "\<not> pattern_test LocalhostAnyPort ''http://localhost:''"
  by (simp_all add: starts_with_def ends_with_def suffix_to_prefix is_digit_def
        line_terminator_def)

section \<open>The backend resolver\<close>

text \<open>
  \<open>getFrontendUrl\<close> never returns the empty string: a value of the environment is
  returned only when it is truthy, and every other result is a non-empty literal.
\<close>

lemma getFrontendUrl_nonempty: "getFrontendUrl e \<noteq> []"
  by (cases "e ''FRONTEND_URL''"; cases "e ''RENDER_EXTERNAL_URL''")
     (auto simp: getFrontendUrl_def)

lemma getFrontendUrl_nonempty_sym: "[] \<noteq> getFrontendUrl e"
  using getFrontendUrl_nonempty [of e] by simp

text \<open>Hence the final \<open>filter(Boolean)\<close> removes nothing, and the list is known entry by entry.\<close>

lemma getCorsOrigins_unfold:
  "getCorsOrigins e =
     [OriginString (getFrontendUrl e),
      OriginString ''http://localhost:5173'',
      OriginString ''http://localhost:5174'',
      OriginString ''http://localhost:3000'',
      OriginString ''http://localhost:5175'',
      OriginPattern LocalhostAnyPort,
      OriginPattern (HttpsAnySubdomain ''onrender.com''),
      OriginPattern (HttpsAnySubdomain ''railway.app''),
      OriginPattern (HttpsAnySubdomain ''vercel.app''),
      OriginPattern (HttpsAnySubdomain ''netlify.app'')]
     @ (if nodeEnv e = ''development'' then [OriginString ''*''] else [])"
  by (simp add: getCorsOrigins_def Let_def getFrontendUrl_nonempty)

text \<open>
  C5. When the explicit override \<open>FRONTEND_URL\<close> is set to a non-empty string \<open>S\<close>,
  \<open>getFrontendUrl\<close> returns exactly \<open>S\<close>; when the client's override
  \<open>VITE_API_BASE_URL\<close> is set to a non-empty string \<open>S\<close>, \<open>getApiBaseUrl\<close> returns exactly
  \<open>S\<close>. Nothing is assumed about the mode or about any other variable.
\<close>

theorem explicit_override_wins:
  "(e ''FRONTEND_URL'' = Some S \<and> S \<noteq> [] \<longrightarrow> getFrontendUrl e = S)
   \<and> (VITE_API_BASE_URL c = Some S \<and> S \<noteq> [] \<longrightarrow> getApiBaseUrl c = S)"
  by (simp add: getFrontendUrl_def getApiBaseUrl_def)

text \<open>
  The theorem at a production backend and at a production client on a platform host, both
  with the override set.
\<close>

theorem explicit_override_wins_witness:
  "getFrontendUrl (map_of [(''FRONTEND_URL'', ''https://front.example.org''),
                           (''NODE_ENV'', ''production''), (''RENDER'', ''true'')])
     = ''https://front.example.org''
   \<and> getApiBaseUrl \<lparr>VITE_API_BASE_URL = Some ''https://front.example.org'', env_PROD = True,
        env_DEV = False, VITE_BACKEND_PORT = Some ''3001'',
        location_host = ''app.onrender.com''\<rparr>
     = ''https://front.example.org''"
  using explicit_override_wins
    [of "map_of [(''FRONTEND_URL'', ''https://front.example.org''),
                 (''NODE_ENV'', ''production''), (''RENDER'', ''true'')]"
        "''https://front.example.org''"
        "\<lparr>VITE_API_BASE_URL = Some ''https://front.example.org'', env_PROD = True,
          env_DEV = False, VITE_BACKEND_PORT = Some ''3001'',
          location_host = ''app.onrender.com''\<rparr>"]
  by simp

text \<open>
  C6, as stated, says that \<open>getFrontendUrl\<close> returns \<open>http://localhost:5173\<close> whenever
  \<open>NODE_ENV\<close> is unset or differs from \<open>production\<close>. With \<open>NODE_ENV\<close> unset and
  \<open>FRONTEND_URL\<close> set, the override is returned instead.
\<close>

theorem getFrontendUrl_development_counterexample:
  "map_of [(''FRONTEND_URL'', ''https://app.example.org'')] ''NODE_ENV'' = None
   \<and> getFrontendUrl (map_of [(''FRONTEND_URL'', ''https://app.example.org'')])
       \<noteq> ''http://localhost:5173''"
  by (simp add: getFrontendUrl_def)

text \<open>
  C6, amended. When \<open>FRONTEND_URL\<close> is unset or empty, and \<open>NODE_ENV\<close> is unset or holds
  any value other than \<open>production\<close>, \<open>getFrontendUrl\<close> returns exactly
  \<open>http://localhost:5173\<close>.
\<close>

theorem getFrontendUrl_development:
  "\<not> truthy (e ''FRONTEND_URL'') \<Longrightarrow> e ''NODE_ENV'' \<noteq> Some ''production'' \<Longrightarrow>
     getFrontendUrl e = ''http://localhost:5173''"
  by (simp add: getFrontendUrl_def nodeEnv_production_iff)

text \<open>The theorem at \<open>NODE_ENV=staging\<close> with the platform variables set.\<close>

theorem getFrontendUrl_development_witness:
  "\<not> truthy (map_of [(''NODE_ENV'', ''staging''), (''RENDER'', ''true'')] ''FRONTEND_URL'')
   \<and> map_of [(''NODE_ENV'', ''staging''), (''RENDER'', ''true'')] ''NODE_ENV''
       \<noteq> Some ''production''
   \<and> getFrontendUrl (map_of [(''NODE_ENV'', ''staging''), (''RENDER'', ''true'')])
       = ''http://localhost:5173''"
  using getFrontendUrl_development
    [of "map_of [(''NODE_ENV'', ''staging''), (''RENDER'', ''true'')]"]
  by simp

text \<open>
  C9. Two snapshots that agree on every variable but \<open>FRONTEND_URL\<close> give the same
  \<open>getBackendUrl\<close>: the backend resolver never reads the override.
\<close>

theorem getBackendUrl_ignores_FRONTEND_URL:
  "\<forall>k. k \<noteq> ''FRONTEND_URL'' \<longrightarrow> e1 k = e2 k \<Longrightarrow> getBackendUrl e1 = getBackendUrl e2"
  by (simp add: getBackendUrl_def nodeEnv_def)

text \<open>The theorem at a production snapshot with and without the override.\<close>

theorem getBackendUrl_ignores_FRONTEND_URL_witness:
  "map_of [(''FRONTEND_URL'', ''https://front.example.org''), (''NODE_ENV'', ''production'')]
       ''FRONTEND_URL'' = Some ''https://front.example.org''
   \<and> map_of [(''NODE_ENV'', ''production'')] ''FRONTEND_URL'' = None
   \<and> getBackendUrl
        (map_of [(''FRONTEND_URL'', ''https://front.example.org''), (''NODE_ENV'', ''production'')])
       = getBackendUrl (map_of [(''NODE_ENV'', ''production'')])"
proof -
  have agree: "\<forall>k. k \<noteq> ''FRONTEND_URL'' \<longrightarrow>
      map_of [(''FRONTEND_URL'', ''https://front.example.org''), (''NODE_ENV'', ''production'')] k
        = map_of [(''NODE_ENV'', ''production'')] k"
    by simp
  have set: "map_of [(''FRONTEND_URL'', ''https://front.example.org''),
                      (''NODE_ENV'', ''production'')] ''FRONTEND_URL''
               = Some ''https://front.example.org''"
    by simp
  have unset: "map_of [(''NODE_ENV'', ''production'')] ''FRONTEND_URL'' = None"
    by simp
  from set unset getBackendUrl_ignores_FRONTEND_URL [OF agree] show ?thesis
    by blast
qed

text \<open>
  C2, as stated, counts exactly three platform-suffix pattern matchers in the list of
  \<open>getCorsOrigins\<close>. The source lists four (\<open>netlify.app\<close> besides \<open>onrender.com\<close>,
  \<open>railway.app\<close> and \<open>vercel.app\<close>), here in a production snapshot.
\<close>

theorem getCorsOrigins_three_patterns_counterexample:
  "length (filter platform_suffix_pattern
     (getCorsOrigins (map_of [(''NODE_ENV'', ''production'')]))) \<noteq> 3"
  by (simp add: getCorsOrigins_unfold)

text \<open>
  C2, amended. For every snapshot the list of \<open>getCorsOrigins\<close> holds the four fixed
  localhost origins and, in this order, exactly four platform-suffix pattern matchers
  (\<open>onrender.com\<close>, \<open>railway.app\<close>, \<open>vercel.app\<close>, \<open>netlify.app\<close>), whatever the mode; when
  \<open>nodeEnv\<close> is \<open>development\<close> it holds the wildcard \<open>*\<close> as well; and it never holds the
  empty string.
\<close>

theorem getCorsOrigins_fixed_entries:
  "set [OriginString ''http://localhost:5173'', OriginString ''http://localhost:5174'',
        OriginString ''http://localhost:3000'', OriginString ''http://localhost:5175'']
     \<subseteq> set (getCorsOrigins e)
   \<and> filter platform_suffix_pattern (getCorsOrigins e) =
       [OriginPattern (HttpsAnySubdomain ''onrender.com''),
        OriginPattern (HttpsAnySubdomain ''railway.app''),
        OriginPattern (HttpsAnySubdomain ''vercel.app''),
        OriginPattern (HttpsAnySubdomain ''netlify.app'')]
   \<and> (nodeEnv e = ''development'' \<longrightarrow> OriginString ''*'' \<in> set (getCorsOrigins e))
   \<and> OriginString [] \<notin> set (getCorsOrigins e)"
  by (simp add: getCorsOrigins_unfold getFrontendUrl_nonempty_sym)

text \<open>The theorem at \<open>NODE_ENV=development\<close> with an empty override.\<close>

theorem getCorsOrigins_fixed_entries_witness:
  "nodeEnv (map_of [(''NODE_ENV'', ''development''), (''FRONTEND_URL'', [])]) = ''development''
   \<and> OriginString ''*''
       \<in> set (getCorsOrigins (map_of [(''NODE_ENV'', ''development''), (''FRONTEND_URL'', [])]))
   \<and> OriginString []
       \<notin> set (getCorsOrigins (map_of [(''NODE_ENV'', ''development''), (''FRONTEND_URL'', [])]))"
  using getCorsOrigins_fixed_entries
    [of "map_of [(''NODE_ENV'', ''development''), (''FRONTEND_URL'', [])]"]
  by (simp add: nodeEnv_def)

text \<open>
  C3, as stated, has the wildcard \<open>*\<close> as the last entry whenever \<open>NODE_ENV\<close> is anything
  but \<open>production\<close>. At \<open>NODE_ENV=test\<close> the mode is not production and the last entry is
  not the wildcard.
\<close>

theorem getCorsOrigins_wildcard_counterexample:
  "map_of [(''NODE_ENV'', ''test'')] ''NODE_ENV'' \<noteq> Some ''production''
   \<and> last (getCorsOrigins (map_of [(''NODE_ENV'', ''test'')])) \<noteq> OriginString ''*''
   \<and> OriginString ''*'' \<notin> set (getCorsOrigins (map_of [(''NODE_ENV'', ''test'')]))"
  by (simp add: getCorsOrigins_unfold nodeEnv_def getFrontendUrl_def)

text \<open>
  C3, amended. \<open>getCorsOrigins\<close> appends the wildcard \<open>*\<close> as the last entry exactly
  when \<open>nodeEnv\<close> is \<open>development\<close>, that is when \<open>NODE_ENV\<close> is unset, empty or equal to
  \<open>development\<close>; for every other value of \<open>NODE_ENV\<close> nothing is appended, and the last
  entry is the \<open>netlify.app\<close> pattern.
\<close>

theorem getCorsOrigins_wildcard_last:
  "(nodeEnv e = ''development'' \<longleftrightarrow>
      e ''NODE_ENV'' = None \<or> e ''NODE_ENV'' = Some [] \<or> e ''NODE_ENV'' = Some ''development'')
   \<and> (nodeEnv e = ''development'' \<longrightarrow>
        getCorsOrigins e \<noteq> [] \<and> last (getCorsOrigins e) = OriginString ''*'')
   \<and> (nodeEnv e \<noteq> ''development'' \<longrightarrow>
        last (getCorsOrigins e) = OriginPattern (HttpsAnySubdomain ''netlify.app''))"
  by (simp add: getCorsOrigins_unfold nodeEnv_development_iff)

text \<open>The theorem with \<open>NODE_ENV\<close> unset, and at \<open>NODE_ENV=staging\<close>.\<close>

theorem getCorsOrigins_wildcard_last_witness:
  "nodeEnv (map_of []) = ''development''
   \<and> last (getCorsOrigins (map_of [])) = OriginString ''*''
   \<and> nodeEnv (map_of [(''NODE_ENV'', ''staging'')]) \<noteq> ''development''
   \<and> last (getCorsOrigins (map_of [(''NODE_ENV'', ''staging'')]))
       = OriginPattern (HttpsAnySubdomain ''netlify.app'')"
  using getCorsOrigins_wildcard_last [of "map_of []"]
    getCorsOrigins_wildcard_last [of "map_of [(''NODE_ENV'', ''staging'')]"]
  by (simp add: nodeEnv_def)

text \<open>
  C10. In a snapshot with \<open>NODE_ENV=production\<close> in which neither \<open>FRONTEND_URL\<close> nor
  \<open>RENDER_EXTERNAL_URL\<close> is the string \<open>*\<close>, the list of \<open>getCorsOrigins\<close> does not
  hold the wildcard entry \<open>*\<close>.
\<close>

theorem getCorsOrigins_production_no_wildcard:
  "e ''NODE_ENV'' = Some ''production'' \<Longrightarrow> e ''FRONTEND_URL'' \<noteq> Some ''*'' \<Longrightarrow>
   e ''RENDER_EXTERNAL_URL'' \<noteq> Some ''*'' \<Longrightarrow>
     OriginString ''*'' \<notin> set (getCorsOrigins e)"
  by (cases "e ''FRONTEND_URL''"; cases "e ''RENDER_EXTERNAL_URL''")
     (auto simp: getCorsOrigins_unfold getFrontendUrl_def nodeEnv_def)

text \<open>The theorem at a production snapshot whose frontend URL comes from the platform.\<close>

theorem getCorsOrigins_production_no_wildcard_witness:
  "map_of [(''NODE_ENV'', ''production''),
           (''RENDER_EXTERNAL_URL'', ''https://svc.onrender.com'')] ''NODE_ENV''
     = Some ''production''
   \<and> OriginString ''*''
       \<notin> set (getCorsOrigins (map_of [(''NODE_ENV'', ''production''),
                                       (''RENDER_EXTERNAL_URL'', ''https://svc.onrender.com'')]))"
  using getCorsOrigins_production_no_wildcard
    [of "map_of [(''NODE_ENV'', ''production''),
                 (''RENDER_EXTERNAL_URL'', ''https://svc.onrender.com'')]"]
  by simp

section \<open>The frontend resolver\<close>

lemma ends_with_includes: "ends_with s t \<Longrightarrow> str_includes s t"
  by (simp add: ends_with_def str_includes_def)

text \<open>What the production branch computes: the three tests are substring tests.\<close>

lemma getApiBaseUrl_production:
  "\<not> truthy (VITE_API_BASE_URL c) \<Longrightarrow> env_PROD c \<Longrightarrow>
     getApiBaseUrl c =
       (if str_includes (location_host c) ''onrender.com''
           \<or> str_includes (location_host c) ''railway.app''
           \<or> str_includes (location_host c) ''vercel.app''
        then ''https://'' @ location_host c @ ''/api'' else ''/api'')"
  by (simp add: getApiBaseUrl_def Let_def)

text \<open>A host that ends with a platform domain gets the absolute URL.\<close>

lemma getApiBaseUrl_production_suffix:
  assumes "\<not> truthy (VITE_API_BASE_URL c)" and "env_PROD c"
    and "ends_with (location_host c) ''onrender.com''
         \<or> ends_with (location_host c) ''railway.app''
         \<or> ends_with (location_host c) ''vercel.app''"
  shows "getApiBaseUrl c = ''https://'' @ location_host c @ ''/api''"
  using assms(3) ends_with_includes
  by (auto simp: getApiBaseUrl_production [OF assms(1,2)])

text \<open>
  C1 says that a production build without override returns \<open>https://{host}/api\<close> exactly
  when the host ends with \<open>onrender.com\<close>, \<open>railway.app\<close> or \<open>vercel.app\<close>, and \<open>/api\<close>
  for every other host. The source tests with \<open>includes\<close>: the host
  \<open>onrender.com.evil.example\<close> ends with none of the three domains, and the function returns
  the absolute URL, not \<open>/api\<close>.
\<close>

theorem getApiBaseUrl_substring_host:
  "\<not> ends_with ''onrender.com.evil.example'' ''onrender.com''
   \<and> \<not> ends_with ''onrender.com.evil.example'' ''railway.app''
   \<and> \<not> ends_with ''onrender.com.evil.example'' ''vercel.app''
   \<and> getApiBaseUrl \<lparr>VITE_API_BASE_URL = None, env_PROD = True, env_DEV = False,
        VITE_BACKEND_PORT = None, location_host = ''onrender.com.evil.example''\<rparr>
       = ''https://onrender.com.evil.example/api''"
  by (simp add: getApiBaseUrl_def str_includes_def ends_with_def suffix_to_prefix)

text \<open>
  C4, as stated, has a development build fall back to port \<open>8080\<close> when
  \<open>VITE_BACKEND_PORT\<close> is not numeric. At \<open>VITE_BACKEND_PORT=abc\<close> the result is not
  \<open>http://localhost:8080/api\<close>.
\<close>

theorem getApiBaseUrl_port_counterexample:
  "\<not> numeric_string ''abc''
   \<and> getApiBaseUrl \<lparr>VITE_API_BASE_URL = None, env_PROD = False, env_DEV = True,
        VITE_BACKEND_PORT = Some ''abc'', location_host = ''localhost:5173''\<rparr>
       \<noteq> ''http://localhost:8080/api''"
  by (simp add: getApiBaseUrl_def numeric_string_def is_digit_def)

text \<open>
  C4, amended. In a non-production build without API-base override, a non-empty
  \<open>VITE_BACKEND_PORT\<close> \<open>p\<close>, numeric or not, is used verbatim: \<open>getApiBaseUrl\<close> returns
  \<open>http://localhost:p/api\<close>. Only an unset or empty \<open>VITE_BACKEND_PORT\<close> gives the default
  \<open>http://localhost:8080/api\<close>. The function is total: no input raises an error.
\<close>

theorem getApiBaseUrl_development_port:
  "\<not> env_PROD c \<Longrightarrow> \<not> truthy (VITE_API_BASE_URL c) \<Longrightarrow>
     (VITE_BACKEND_PORT c = Some p \<and> p \<noteq> [] \<longrightarrow>
        getApiBaseUrl c = ''http://localhost:'' @ p @ ''/api'')
     \<and> (\<not> truthy (VITE_BACKEND_PORT c) \<longrightarrow> getApiBaseUrl c = ''http://localhost:8080/api'')"
  by (cases "VITE_BACKEND_PORT c") (auto simp: getApiBaseUrl_def)

text \<open>The theorem at \<open>VITE_BACKEND_PORT=abc\<close>, and with the variable unset.\<close>

theorem getApiBaseUrl_development_port_witness:
  "getApiBaseUrl \<lparr>VITE_API_BASE_URL = None, env_PROD = False, env_DEV = True,
      VITE_BACKEND_PORT = Some ''abc'', location_host = ''localhost:5173''\<rparr>
     = ''http://localhost:abc/api''
   \<and> getApiBaseUrl \<lparr>VITE_API_BASE_URL = Some [], env_PROD = False, env_DEV = True,
      VITE_BACKEND_PORT = None, location_host = ''localhost:5173''\<rparr>
     = ''http://localhost:8080/api''"
  using getApiBaseUrl_development_port
      [of "\<lparr>VITE_API_BASE_URL = None, env_PROD = False, env_DEV = True,
             VITE_BACKEND_PORT = Some ''abc'', location_host = ''localhost:5173''\<rparr>" "''abc''"]
    getApiBaseUrl_development_port
      [of "\<lparr>VITE_API_BASE_URL = Some [], env_PROD = False, env_DEV = True,
             VITE_BACKEND_PORT = None, location_host = ''localhost:5173''\<rparr>" "[]"]
  by simp

text \<open>The replacement removes a final \<open>/api\<close> and changes nothing else.\<close>

lemma replace_api_end_append: "replace_api_end (b @ ''/api'') = b"
  by (induction b) auto

lemma replace_api_end_unchanged: "\<not> ends_with s ''/api'' \<Longrightarrow> replace_api_end s = s"
  unfolding ends_with_def by (induction s) (auto simp: suffix_Cons)

text \<open>
  C7. \<open>getBackendBaseUrl\<close> removes \<open>/api\<close> from the result of \<open>getApiBaseUrl\<close> only as an
  exact suffix: a result \<open>b/api\<close> becomes \<open>b\<close>, and a result that does not end with
  \<open>/api\<close> is returned unchanged. So \<open>https://x.onrender.com/api\<close> gives
  \<open>https://x.onrender.com\<close>, while \<open>https://x.onrender.com/api/legacy\<close> (the text occurs
  mid-string only) and \<open>https://x.onrender.com/API\<close> (another case) are returned as they are.
\<close>

theorem getBackendBaseUrl_strips_final_api:
  "(getApiBaseUrl c = b @ ''/api'' \<longrightarrow> getBackendBaseUrl c = b)
   \<and> (\<not> ends_with (getApiBaseUrl c) ''/api'' \<longrightarrow> getBackendBaseUrl c = getApiBaseUrl c)
   \<and> (getApiBaseUrl c = ''https://x.onrender.com/api'' \<longrightarrow>
        getBackendBaseUrl c = ''https://x.onrender.com'')
   \<and> (getApiBaseUrl c = ''https://x.onrender.com/api/legacy'' \<longrightarrow>
        getBackendBaseUrl c = ''https://x.onrender.com/api/legacy'')
   \<and> (getApiBaseUrl c = ''https://x.onrender.com/API'' \<longrightarrow>
        getBackendBaseUrl c = ''https://x.onrender.com/API'')"
  by (simp add: getBackendBaseUrl_def replace_api_end_append replace_api_end_unchanged)

text \<open>
  The theorem at three snapshots whose \<open>getApiBaseUrl\<close> is the override: the three URLs
  of the claim.
\<close>

theorem getBackendBaseUrl_strips_final_api_witness:
  "getBackendBaseUrl \<lparr>VITE_API_BASE_URL = Some ''https://x.onrender.com/api'', env_PROD = True,
      env_DEV = False, VITE_BACKEND_PORT = None, location_host = ''x.onrender.com''\<rparr>
     = ''https://x.onrender.com''
   \<and> getBackendBaseUrl \<lparr>VITE_API_BASE_URL = Some ''https://x.onrender.com/api/legacy'',
      env_PROD = True, env_DEV = False, VITE_BACKEND_PORT = None,
      location_host = ''x.onrender.com''\<rparr>
     = ''https://x.onrender.com/api/legacy''
   \<and> getBackendBaseUrl \<lparr>VITE_API_BASE_URL = Some ''https://x.onrender.com/API'',
      env_PROD = True, env_DEV = False, VITE_BACKEND_PORT = None,
      location_host = ''x.onrender.com''\<rparr>
     = ''https://x.onrender.com/API''"
  using getBackendBaseUrl_strips_final_api
      [of "\<lparr>VITE_API_BASE_URL = Some ''https://x.onrender.com/api'', env_PROD = True,
             env_DEV = False, VITE_BACKEND_PORT = None, location_host = ''x.onrender.com''\<rparr>"
          "''https://x.onrender.com''"]
    getBackendBaseUrl_strips_final_api
      [of "\<lparr>VITE_API_BASE_URL = Some ''https://x.onrender.com/api/legacy'',
             env_PROD = True, env_DEV = False, VITE_BACKEND_PORT = None,
             location_host = ''x.onrender.com''\<rparr>" "[]"]
    getBackendBaseUrl_strips_final_api
      [of "\<lparr>VITE_API_BASE_URL = Some ''https://x.onrender.com/API'',
             env_PROD = True, env_DEV = False, VITE_BACKEND_PORT = None,
             location_host = ''x.onrender.com''\<rparr>" "[]"]
  by (simp add: getApiBaseUrl_def)

text \<open>
  C8. With \<open>base\<close> the result of \<open>getApiBaseUrl\<close>, both \<open>getApiUrl('feedback')\<close> and
  \<open>getApiUrl('/feedback')\<close> are \<open>base/feedback\<close>. In general an endpoint that starts
  with a slash is appended as it is, and any other endpoint is appended after one slash;
  neither the base nor the endpoint is changed otherwise.
\<close>

theorem getApiUrl_joins_with_one_slash:
  "getApiUrl c ''feedback'' = getApiBaseUrl c @ ''/feedback''
   \<and> getApiUrl c ''/feedback'' = getApiBaseUrl c @ ''/feedback''
   \<and> getApiUrl c (CHR ''/'' # ep) = getApiBaseUrl c @ CHR ''/'' # ep
   \<and> (\<not> starts_with ep ''/'' \<longrightarrow> getApiUrl c ep = getApiBaseUrl c @ CHR ''/'' # ep)"
  by (simp add: getApiUrl_def starts_with_def)

text \<open>
  The theorem at a base that ends with a slash and an endpoint with doubled and trailing
  slashes: all of them are kept.
\<close>

theorem getApiUrl_joins_with_one_slash_witness:
  "\<not> starts_with ''a//b/'' ''/''
   \<and> getApiUrl \<lparr>VITE_API_BASE_URL = Some ''https://h.example/api/'', env_PROD = True,
        env_DEV = False, VITE_BACKEND_PORT = None, location_host = ''h.example''\<rparr> ''a//b/''
       = ''https://h.example/api//a//b/''"
  using getApiUrl_joins_with_one_slash
      [of "\<lparr>VITE_API_BASE_URL = Some ''https://h.example/api/'', env_PROD = True,
             env_DEV = False, VITE_BACKEND_PORT = None, location_host = ''h.example''\<rparr>"
          "''a//b/''"]
  by (simp add: getApiBaseUrl_def starts_with_def)

end
